theory Spec2Isabelle
  imports Main
begin

section \<open>Session lifecycle and message routing of the kitchen-sink MCP server\<close>

text \<open>
  The repository holds several drafts of one Node server. Three of them are embedded here:
  \<^item> \<open>server.ts\<close>, first document (lines 1-428): the names without suffix;
  \<^item> the legacy-mode draft (\<open>part_000\<close>, lines 1-304): suffix \<open>_legacy\<close>;
  \<^item> the golden-master draft (\<open>part_000\<close>, lines 672-819): suffix \<open>_golden\<close>.

  The other drafts (the second document of \<open>server.ts\<close>, and lines 305-670 of \<open>part_000\<close>)
  are not embedded.

  Objects of the SDK (\<open>Server\<close>, \<open>SSEServerTransport\<close>) are represented by the handle of
  the connection \<open>res\<close> they were created for. What the SDK does is not code of this
  repository and is an input of the model: the record \<open>sdk\<close> for what it does inside a call
  (\<open>transport.sessionId\<close>, \<open>server.connect\<close>, \<open>transport.handlePostMessage\<close>), and the
  calls it makes of the closure stored in \<open>transport.onclose\<close>, each with the way
  \<open>server.close()\<close> ends in it.
  Calls to \<open>console.log\<close> and \<open>console.error\<close> are left out, and with them the handler
  \<open>transport.onerror\<close>, which only logs.
\<close>

subsection \<open>Data model\<close>

type_synonym handle = nat

record SessionRecord =
  server :: handle
  transport :: handle

datatype effect =
    ServerConnect handle
  | TransportHandlePostMessage handle
  | ServerClose handle

text \<open>
  \<open>sessions\<close> is the module-level \<open>Map<string, SessionRecord>\<close>; \<open>onclose\<close> holds, for
  each transport, the variables captured by the closure assigned to \<open>transport.onclose\<close>
  (\<open>sessionId\<close> and \<open>server\<close>); \<open>effects\<close> records the calls made into the SDK, in order.
\<close>

record state =
  sessions :: "string \<rightharpoonup> SessionRecord"
  onclose :: "handle \<rightharpoonup> string \<times> handle"
  effects :: "effect list"

definition init :: state where
  "init = \<lparr>sessions = Map.empty, onclose = Map.empty, effects = []\<rparr>"

record ServerResponse =
  res_id :: handle
  res_headers :: "(string \<times> string) list"

definition setHeader :: "string \<Rightarrow> string \<Rightarrow> ServerResponse \<Rightarrow> ServerResponse" where
  "setHeader name v res =
     res\<lparr>res_headers := filter (\<lambda>(n, _). n \<noteq> name) (res_headers res) @ [(name, v)]\<rparr>"

text \<open>
  \<open>Ended status headers body\<close>: this server completed the response with
  \<open>res.writeHead(status).end(body)\<close>. \<open>LeftToTransport headers\<close>: this server wrote no
  status line; the response object stays with the SDK transport.
\<close>

datatype reply =
    Ended nat "(string \<times> string) list" string
  | LeftToTransport "(string \<times> string) list"

fun reply_status :: "reply \<Rightarrow> nat option" where
  "reply_status (Ended s _ _) = Some s"
| "reply_status (LeftToTransport _) = None"

fun reply_body :: "reply \<Rightarrow> string option" where
  "reply_body (Ended _ _ b) = Some b"
| "reply_body (LeftToTransport _) = None"

definition writeHead_end :: "nat \<Rightarrow> string \<Rightarrow> ServerResponse \<Rightarrow> reply" where
  "writeHead_end st_code b res = Ended st_code (res_headers res) b"

text \<open>
  The outcome of \<open>await server.connect(transport)\<close> and of
  \<open>await session.transport.handlePostMessage(req, res)\<close>; a throw carries the value of
  \<open>res.headersSent\<close> seen by the \<open>catch\<close> block.
\<close>

datatype connect_outcome = ConnectOk | ConnectThrows bool

datatype post_outcome = PostHandled | PostThrows bool

record sdk =
  sdk_sessionId :: string
  sdk_connect :: connect_outcome
  sdk_handlePostMessage :: post_outcome

text \<open>The request as the handler sees it: \<open>req.method\<close> and the parsed \<open>URL\<close>.\<close>

record request =
  req_method :: string
  pathname :: string
  searchParams :: "(string \<times> string) list"

definition searchParams_get :: "(string \<times> string) list \<Rightarrow> string \<Rightarrow> string option" where
  "searchParams_get ps name = map_of ps name"

definition searchParams_has :: "(string \<times> string) list \<Rightarrow> string \<Rightarrow> bool" where
  "searchParams_has ps name = (map_of ps name \<noteq> None)"

text \<open>
  The test \<open>!sessionId\<close> on a \<open>string | null\<close> holds for \<open>null\<close> and for the empty
  string: \<open>non_empty\<close> is \<open>None\<close> in these two cases and the string otherwise.
\<close>

fun non_empty :: "string option \<Rightarrow> string option" where
  "non_empty None = None"
| "non_empty (Some s) = (if s = [] then None else Some s)"

definition Map_has :: "'k \<Rightarrow> ('k \<rightharpoonup> 'v) \<Rightarrow> bool" where
  "Map_has k m = (m k \<noteq> None)"

text \<open>\<open>Map.prototype.delete\<close>: returns whether an entry was removed.\<close>

definition Map_delete :: "'k \<Rightarrow> ('k \<rightharpoonup> 'v) \<Rightarrow> bool \<times> ('k \<rightharpoonup> 'v)" where
  "Map_delete k m = (m k \<noteq> None, m(k := None))"

definition ssePath :: string where
  "ssePath = ''/mcp''"

definition postPath :: string where
  "postPath = ''/mcp/messages''"

text \<open>\<open>url.pathname.replace(/\/$/, "")\<close>: one slash at the end of the string is removed.\<close>

definition cleanPath :: "string \<Rightarrow> string" where
  "cleanPath p = (if p \<noteq> [] \<and> last p = CHR ''/'' then butlast p else p)"

subsection \<open>Stream teardown: the closure assigned to \<open>transport.onclose\<close>\<close>

text \<open>
  \<open>server.ts\<close>, lines 309-312: \<open>sessions.delete(sessionId); await server.close();\<close>.
  \<open>Map.delete\<close> does not throw. The call \<open>server.close()\<close> is recorded as an effect, and how
  its promise ends is an input, as for the other calls into the SDK. The closure has no
  \<open>catch\<close> and nothing after the \<open>await\<close>: it ends as \<open>server.close()\<close> ends.
\<close>

datatype completion = Resolved | Rejected

definition onclose_handler :: "string \<Rightarrow> handle \<Rightarrow> completion \<Rightarrow> state \<Rightarrow> completion \<times> state" where
  "onclose_handler sessionId srv server_close st =
     (let st1 = st\<lparr>sessions := snd (Map_delete sessionId (sessions st))\<rparr>;
          st2 = st1\<lparr>effects := effects st1 @ [ServerClose srv]\<rparr>
      in (server_close, st2))"

subsection \<open>\<open>server.ts\<close>: stream open, message submit, dispatcher\<close>

text \<open>\<open>handleSseRequest\<close>, lines 299-327, and \<open>handlePostMessage\<close>, lines 329-358.\<close>

definition handleSseRequest :: "sdk \<Rightarrow> ServerResponse \<Rightarrow> state \<Rightarrow> reply \<times> state" where
  "handleSseRequest k res0 st =
     (let res = setHeader ''Access-Control-Allow-Origin'' ''*'' res0;
          srv = res_id res;
          tr = res_id res;
          sessionId = sdk_sessionId k;
          st1 = st\<lparr>sessions := (sessions st)(sessionId \<mapsto> \<lparr>server = srv, transport = tr\<rparr>)\<rparr>;
          st2 = st1\<lparr>onclose := (onclose st1)(tr \<mapsto> (sessionId, srv))\<rparr>;
          st3 = st2\<lparr>effects := effects st2 @ [ServerConnect srv]\<rparr>
      in case sdk_connect k of
           ConnectOk \<Rightarrow> (LeftToTransport (res_headers res), st3)
         | ConnectThrows headersSent \<Rightarrow>
             (let st4 = st3\<lparr>sessions := snd (Map_delete sessionId (sessions st3))\<rparr>
              in if \<not> headersSent
                 then (writeHead_end 500 ''Failed to establish SSE connection'' res, st4)
                 else (LeftToTransport (res_headers res), st4)))"

definition handlePostMessage :: "sdk \<Rightarrow> request \<Rightarrow> ServerResponse \<Rightarrow> state \<Rightarrow> reply \<times> state" where
  "handlePostMessage k req res0 st =
     (let res = setHeader ''Access-Control-Allow-Headers'' ''content-type''
                  (setHeader ''Access-Control-Allow-Origin'' ''*'' res0);
          sessionId = searchParams_get (searchParams req) ''sessionId''
      in case non_empty sessionId of
           None \<Rightarrow> (writeHead_end 400 ''Missing sessionId query parameter'' res, st)
         | Some sid \<Rightarrow>
             (case sessions st sid of
                None \<Rightarrow> (writeHead_end 404 ''Unknown session'' res, st)
              | Some session \<Rightarrow>
                  (let st1 = st\<lparr>effects := effects st @ [TransportHandlePostMessage (transport session)]\<rparr>
                   in case sdk_handlePostMessage k of
                        PostHandled \<Rightarrow> (LeftToTransport (res_headers res), st1)
                      | PostThrows headersSent \<Rightarrow>
                          if \<not> headersSent
                          then (writeHead_end 500 ''Failed to process message'' res, st1)
                          else (LeftToTransport (res_headers res), st1))))"

definition cors_options :: "(string \<times> string) list" where
  "cors_options =
     [(''Access-Control-Allow-Origin'', ''*''),
      (''Access-Control-Allow-Methods'', ''GET, POST, OPTIONS''),
      (''Access-Control-Allow-Headers'', ''content-type'')]"

text \<open>
  The callback of \<open>createServer\<close>, lines 366-417. Node hands it a new \<open>ServerResponse\<close> for each request,
  with no header set: \<open>new_response h\<close> for the connection \<open>h\<close>.
\<close>

definition new_response :: "handle \<Rightarrow> ServerResponse" where
  "new_response h = \<lparr>res_id = h, res_headers = []\<rparr>"

definition httpServer :: "sdk \<Rightarrow> request \<Rightarrow> handle \<Rightarrow> state \<Rightarrow> reply \<times> state" where
  "httpServer k req h st =
     (let res = new_response h;
          cp = cleanPath (pathname req)
      in if req_method req = ''OPTIONS''
         then (writeHead_end 204 [] (fold (\<lambda>(n, v). setHeader n v) cors_options res), st)
         else if req_method req = ''GET'' \<and> cp = ssePath
         then handleSseRequest k res st
         else if req_method req = ''POST'' \<and> cp = postPath
         then handlePostMessage k req res st
         else if req_method req = ''POST'' \<and> cp = ssePath
         then (if searchParams_has (searchParams req) ''sessionId''
               then handlePostMessage k req res st
               else (writeHead_end 200 ''OK'' res, st))
         else (writeHead_end 404 ''Not Found'' res, st))"

subsection \<open>Legacy-mode draft: stream open, message submit, dispatcher\<close>

text \<open>
  \<open>part_000\<close>: \<open>handleSseRequest\<close>, lines 217-236; \<open>handlePostMessage\<close>, lines 238-249; the
  callback of \<open>createServer\<close>, lines 254-299, which sets the three CORS headers first.
\<close>

definition handleSseRequest_legacy :: "sdk \<Rightarrow> ServerResponse \<Rightarrow> state \<Rightarrow> reply \<times> state" where
  "handleSseRequest_legacy k res st =
     (let tr = res_id res;
          sessionId = sdk_sessionId k;
          srv = res_id res;
          st1 = st\<lparr>sessions := (sessions st)(sessionId \<mapsto> \<lparr>server = srv, transport = tr\<rparr>)\<rparr>;
          st2 = st1\<lparr>onclose := (onclose st1)(tr \<mapsto> (sessionId, srv))\<rparr>;
          st3 = st2\<lparr>effects := effects st2 @ [ServerConnect srv]\<rparr>
      in case sdk_connect k of
           ConnectOk \<Rightarrow> (LeftToTransport (res_headers res), st3)
         | ConnectThrows headersSent \<Rightarrow>
             (let st4 = st3\<lparr>sessions := snd (Map_delete sessionId (sessions st3))\<rparr>
              in if \<not> headersSent
                 then (writeHead_end 500 ''SSE Error'' res, st4)
                 else (LeftToTransport (res_headers res), st4)))"

definition handlePostMessage_legacy :: "sdk \<Rightarrow> request \<Rightarrow> ServerResponse \<Rightarrow> state \<Rightarrow> reply \<times> state" where
  "handlePostMessage_legacy k req res st =
     (let sessionId = searchParams_get (searchParams req) ''sessionId''
      in case non_empty sessionId of
           None \<Rightarrow> (writeHead_end 400 ''Missing sessionId'' res, st)
         | Some sid \<Rightarrow>
             (case sessions st sid of
                None \<Rightarrow> (writeHead_end 404 ''Unknown session'' res, st)
              | Some session \<Rightarrow>
                  (let st1 = st\<lparr>effects := effects st @ [TransportHandlePostMessage (transport session)]\<rparr>
                   in case sdk_handlePostMessage k of
                        PostHandled \<Rightarrow> (LeftToTransport (res_headers res), st1)
                      | PostThrows headersSent \<Rightarrow>
                          if \<not> headersSent
                          then (writeHead_end 500 ''Message Error'' res, st1)
                          else (LeftToTransport (res_headers res), st1))))"

definition httpServer_legacy :: "sdk \<Rightarrow> request \<Rightarrow> handle \<Rightarrow> state \<Rightarrow> reply \<times> state" where
  "httpServer_legacy k req h st =
     (let cp = cleanPath (pathname req);
          res = fold (\<lambda>(n, v). setHeader n v) cors_options (new_response h)
      in if req_method req = ''OPTIONS''
         then (writeHead_end 204 [] res, st)
         else if cp = [] \<or> cp = ''/''
         then (writeHead_end 200 ''Kitchen Sink MCP Server is online.'' res, st)
         else if req_method req = ''GET'' \<and> cp = ssePath
         then handleSseRequest_legacy k res st
         else if req_method req = ''POST'' \<and> cp = postPath
         then handlePostMessage_legacy k req res st
         else if req_method req = ''POST'' \<and> cp = ssePath
         then (writeHead_end 405 ''Use GET for SSE'' res, st)
         else (writeHead_end 404 ''Not Found'' res, st))"

subsection \<open>Golden-master draft: message submit\<close>

text \<open>
  \<open>part_000\<close>, lines 765-784. The guard is \<open>!sessionId || !sessions.has(sessionId)\<close>; the
  \<open>catch\<close> block around \<open>transport.handlePostMessage\<close> only logs.
\<close>

definition handlePostMessage_golden :: "sdk \<Rightarrow> request \<Rightarrow> ServerResponse \<Rightarrow> state \<Rightarrow> reply \<times> state" where
  "handlePostMessage_golden k req res st =
     (let sessionId = searchParams_get (searchParams req) ''sessionId''
      in case non_empty sessionId of
           None \<Rightarrow> (writeHead_end 404 ''Session not found'' res, st)
         | Some sid \<Rightarrow>
             if \<not> Map_has sid (sessions st)
             then (writeHead_end 404 ''Session not found'' res, st)
             else (case sessions st sid of
                     None \<Rightarrow> (LeftToTransport (res_headers res), st)
                   | Some session \<Rightarrow>
                       (LeftToTransport (res_headers res),
                        st\<lparr>effects := effects st @ [TransportHandlePostMessage (transport session)]\<rparr>)))"

subsection \<open>Lifecycle events\<close>

text \<open>
  What can happen to the registry of \<open>server.ts\<close>: a stream-open request on connection
  \<open>h\<close>, a message-submit request, and the close of the stream of connection \<open>h\<close>.

  At a close, whether and how often the closure stored in \<open>transport.onclose\<close> is called is
  decided by the SDK, which is not under src/: \<open>server.ts\<close> assigns the closure before it
  calls \<open>server.connect(transport)\<close>, and the closure itself calls back into the SDK with
  \<open>server.close()\<close>. So the event \<open>Closed h calls\<close> carries the calls the SDK makes, one
  element for each call of the closure, telling how \<open>server.close()\<close> ends in that call.
  The list is empty when the SDK does not call the closure at all, and has several elements
  when the SDK calls it again, also from within \<open>server.close()\<close>: the closure does nothing
  after its \<open>await\<close>, so a call made from within is a call made next. The way a call of
  the closure ends goes back to the SDK; the event keeps the state. A connection that never
  opened a stream has no closure.
\<close>

datatype op =
    Open sdk handle
  | Closed handle "completion list"
  | Post sdk request handle

fun step :: "op \<Rightarrow> state \<Rightarrow> state" where
  "step (Open k h) st = snd (handleSseRequest k (new_response h) st)"
| "step (Closed h calls) st =
     (case onclose st h of
        None \<Rightarrow> st
      | Some (sessionId, srv) \<Rightarrow>
          fold (\<lambda>server_close s. snd (onclose_handler sessionId srv server_close s)) calls st)"
| "step (Post k req h) st = snd (handlePostMessage k req (new_response h) st)"

fun run :: "op list \<Rightarrow> state \<Rightarrow> state" where
  "run [] st = st"
| "run (x # xs) st = run xs (step x st)"







subsection \<open>Protocol engine: the \<open>CallToolRequestSchema\<close> handlers\<close>

text \<open>
  JSON values of a request. No handler inspects a number beyond its type, so numbers are
  integers here. The arguments of a call are the parsed object, a map from property names.
\<close>

datatype json =
    JNull
  | JBool bool
  | JNumber int
  | JString string
  | JArray "json list"
  | JObject "(string \<times> json) list"

text \<open>
  The zod parsers \<open>showParser\<close> and \<open>refreshParser\<close> (\<open>server.ts\<close>, lines 133-141), with the
  behaviour of the zod library: \<open>z.object({...})\<close> checks each key of
  its shape in order, collects one \<open>invalid_type\<close> issue for each key that fails, and keeps
  only the keys of the shape. \<open>z.string()\<close> accepts strings only; \<open>.optional()\<close> also
  accepts an absent key.
\<close>

datatype zod_type = ZUndefined | ZNull | ZBoolean | ZNumber | ZString | ZArray | ZObject

fun getParsedType :: "json option \<Rightarrow> zod_type" where
  "getParsedType None = ZUndefined"
| "getParsedType (Some JNull) = ZNull"
| "getParsedType (Some (JBool _)) = ZBoolean"
| "getParsedType (Some (JNumber _)) = ZNumber"
| "getParsedType (Some (JString _)) = ZString"
| "getParsedType (Some (JArray _)) = ZArray"
| "getParsedType (Some (JObject _)) = ZObject"

record zod_issue =
  expected :: zod_type
  received :: zod_type
  path :: "string list"

datatype error =
    ZodError "zod_issue list"
  | Error string
  | TypeError string

fun z_string :: "string \<Rightarrow> json option \<Rightarrow> zod_issue list + string" where
  "z_string key (Some (JString s)) = Inr s"
| "z_string key v = Inl [\<lparr>expected = ZString, received = getParsedType v, path = [key]\<rparr>]"

fun z_string_optional :: "string \<Rightarrow> json option \<Rightarrow> zod_issue list + string option" where
  "z_string_optional key None = Inr None"
| "z_string_optional key (Some (JString s)) = Inr (Some s)"
| "z_string_optional key v = Inl [\<lparr>expected = ZString, received = getParsedType v, path = [key]\<rparr>]"

fun issues_of :: "zod_issue list + 'a \<Rightarrow> zod_issue list" where
  "issues_of (Inl is) = is"
| "issues_of (Inr _) = []"

record show_args =
  sa_message :: string
  sa_accentColor :: "string option"
  sa_details :: "string option"

definition showParser :: "(string \<rightharpoonup> json) \<Rightarrow> error + show_args" where
  "showParser a =
     (let m = z_string ''message'' (a ''message'');
          c = z_string_optional ''accentColor'' (a ''accentColor'');
          d = z_string_optional ''details'' (a ''details'')
      in case (m, c, d) of
           (Inr s, Inr ac, Inr dt) \<Rightarrow> Inr \<lparr>sa_message = s, sa_accentColor = ac, sa_details = dt\<rparr>
         | _ \<Rightarrow> Inl (ZodError (issues_of m @ issues_of c @ issues_of d)))"

definition refreshParser :: "(string \<rightharpoonup> json) \<Rightarrow> error + string" where
  "refreshParser a =
     (case z_string ''message'' (a ''message'') of
        Inr s \<Rightarrow> Inr s
      | Inl is \<Rightarrow> Inl (ZodError is))"

text \<open>\<open>x ?? d\<close> on a \<open>string | undefined\<close>.\<close>

fun nullish :: "'a option \<Rightarrow> 'a \<Rightarrow> 'a" where
  "nullish None d = d"
| "nullish (Some x) d = x"

definition TEMPLATE_URI :: string where
  "TEMPLATE_URI = ''ui://widget/kitchen-sink-lite.html''"

definition toolDescriptorMeta :: "(string \<times> json) list" where
  "toolDescriptorMeta =
     [(''openai/outputTemplate'', JString TEMPLATE_URI),
      (''openai/toolInvocation/invoking'', JString ''Preparing the kitchen sink widget''),
      (''openai/toolInvocation/invoked'', JString ''Widget rendered''),
      (''openai/widgetAccessible'', JBool True)]"

definition toolInvocationMeta :: "string \<Rightarrow> (string \<times> json) list" where
  "toolInvocationMeta invocation = toolDescriptorMeta @ [(''invocation'', JString invocation)]"

record CallToolResult =
  content_text :: string
  structuredContent :: "(string \<times> json) list"
  meta :: "(string \<times> json) list"

text \<open>
  The two values a handler takes from its environment: \<open>new Date().toISOString()\<close> and
  the function \<open>String.prototype.toUpperCase\<close>.
\<close>

record js_env =
  toISOString_now :: string
  toUpperCase :: "string \<Rightarrow> string"

record CallToolRequest =
  params_name :: string
  params_arguments :: "(string \<rightharpoonup> json) option"

text \<open>
  The handler registered for \<open>CallToolRequestSchema\<close> in \<open>server.ts\<close>, lines 239-284. An
  exception thrown by the handler is the \<open>Inl\<close> result.
\<close>

definition CallTool :: "js_env \<Rightarrow> CallToolRequest \<Rightarrow> error + CallToolResult" where
  "CallTool e request =
     (if params_name request = ''kitchen-sink-show''
      then (case showParser (nullish (params_arguments request) Map.empty) of
              Inl err \<Rightarrow> Inl err
            | Inr args \<Rightarrow>
                (let processedAt = toISOString_now e;
                     echoed = toUpperCase e (sa_message args);
                     accent = nullish (sa_accentColor args) ''#2d6cdf'';
                     details = nullish (sa_details args)
                       (''Processed at '' @ processedAt @ ''. Echo (uppercased): '' @ echoed @ ''.'')
                 in Inr \<lparr>content_text =
                            ''Widget ready with message: '' @ sa_message args
                              @ '' (processed '' @ processedAt @ '')'',
                          structuredContent =
                            [(''message'', JString (sa_message args)),
                             (''accentColor'', JString accent),
                             (''details'', JString details),
                             (''fromTool'', JString ''kitchen-sink-show''),
                             (''processedAt'', JString processedAt),
                             (''echoed'', JString echoed)],
                          meta = toolInvocationMeta ''kitchen-sink-show''\<rparr>))
      else if params_name request = ''kitchen-sink-refresh''
      then (case refreshParser (nullish (params_arguments request) Map.empty) of
              Inl err \<Rightarrow> Inl err
            | Inr msg \<Rightarrow>
                Inr \<lparr>content_text = msg,
                     structuredContent =
                       [(''message'', JString msg),
                        (''accentColor'', JString ''#2d6cdf''),
                        (''details'', JString ''Response returned from window.openai.callTool.''),
                        (''fromTool'', JString ''kitchen-sink-refresh'')],
                     meta = toolInvocationMeta ''kitchen-sink-refresh''\<rparr>)
      else Inl (Error (''Unknown tool: '' @ params_name request)))"

text \<open>
  The golden-master handler (\<open>part_000\<close>, lines 716-729) casts:
  \<open>request.params.arguments as { message: string }\<close>.
  Reading \<open>args.message\<close> throws a \<open>TypeError\<close> when the arguments are \<open>undefined\<close>
  (the error carries the name of the property read). The template literal is kept as its
  parts, the substituted value as it is read.
\<close>

datatype template_part = Lit string | Subst "json option"

definition CallTool_golden :: "CallToolRequest \<Rightarrow> error + template_part list" where
  \<open>CallTool_golden request =
     (if params_name request = ''kitchen-sink-show''
      then (case params_arguments request of
              None \<Rightarrow> Inl (TypeError ''message'')
            | Some args \<Rightarrow>
                Inr [Lit ''Widget displayed: "'', Subst (args ''message''), Lit ''"''])
      else Inl (Error ''Tool not found''))\<close>

text \<open>
  Modelled from the spec: the emission of the result of a dispatch on the owning stream,
  done by the SDK class \<open>Server\<close>, which is not under src/. Exactly one operation result
  is written per dispatch; an error raised by the handler becomes a structured failure
  result delivered the same way a success result would be.
\<close>

datatype 'r OperationResult = Success 'r | Failure error

definition Dispatch :: "error + 'r \<Rightarrow> 'r OperationResult list \<Rightarrow> 'r OperationResult list" where
  "Dispatch outcome stream =
     stream @ [case outcome of Inr r \<Rightarrow> Success r | Inl err \<Rightarrow> Failure err]"

subsection \<open>Auxiliary notions for the statements\<close>

text \<open>The names declared in the array \<open>tools\<close> of \<open>server.ts\<close>, lines 143-168.\<close>

definition tool_names :: "string list" where
  "tool_names = [''kitchen-sink-show'', ''kitchen-sink-refresh'']"

fun is_string :: "json option \<Rightarrow> bool" where
  "is_string (Some (JString _)) = True"
| "is_string _ = False"

fun is_string_or_absent :: "json option \<Rightarrow> bool" where
  "is_string_or_absent None = True"
| "is_string_or_absent v = is_string v"




subsection \<open>Example inputs\<close>

definition sdk_ok :: "string \<Rightarrow> sdk" where
  "sdk_ok sid = \<lparr>sdk_sessionId = sid, sdk_connect = ConnectOk, sdk_handlePostMessage = PostHandled\<rparr>"

definition sdk_fails :: "string \<Rightarrow> bool \<Rightarrow> sdk" where
  "sdk_fails sid headersSent =
     \<lparr>sdk_sessionId = sid, sdk_connect = ConnectThrows headersSent, sdk_handlePostMessage = PostHandled\<rparr>"

definition request_of :: "string \<Rightarrow> string \<Rightarrow> (string \<times> string) list \<Rightarrow> request" where
  "request_of m p q = \<lparr>req_method = m, pathname = p, searchParams = q\<rparr>"

definition env0 :: js_env where
  "env0 = \<lparr>toISOString_now = ''2025-01-01T00:00:00.000Z'', toUpperCase = (\<lambda>s. s)\<rparr>"

definition call_of :: "string \<Rightarrow> (string \<rightharpoonup> json) option \<Rightarrow> CallToolRequest" where
  "call_of n a = \<lparr>params_name = n, params_arguments = a\<rparr>"


definition request_for :: "string \<Rightarrow> request" where
  "request_for sid = request_of ''POST'' ''/mcp/messages'' [(''sessionId'', sid)]"

section \<open>Properties\<close>

subsection \<open>Projections of the handlers on the registry\<close>







lemma sessions_handleSse:
  "sessions (snd (handleSseRequest k res st)) =
     (case sdk_connect k of
        ConnectOk \<Rightarrow> (sessions st)(sdk_sessionId k \<mapsto> \<lparr>server = res_id res, transport = res_id res\<rparr>)
      | ConnectThrows b \<Rightarrow> (sessions st)(sdk_sessionId k := None))"
  by (simp add: handleSseRequest_def Let_def Map_delete_def setHeader_def split: connect_outcome.split)










lemma SessionRecord_eq:
  "(r = \<lparr>server = a, transport = b\<rparr>) = (server r = a \<and> transport r = b)"
  by (cases r) simp






subsection \<open>The registry invariant is kept by every event\<close>

















lemma showParser_message:
  "\<not> is_string (a ''message'') \<Longrightarrow>
   \<exists>rest. showParser a =
     Inl (ZodError (\<lparr>expected = ZString, received = getParsedType (a ''message''), path = [''message'']\<rparr> # rest))"
  by (cases "(''message'', a ''message'')" rule: z_string.cases)
     (auto simp add: showParser_def Let_def split: sum.split)

lemma refreshParser_message:
  "\<not> is_string (a ''message'') \<Longrightarrow>
   refreshParser a =
     Inl (ZodError [\<lparr>expected = ZString, received = getParsedType (a ''message''), path = [''message'']\<rparr>])"
  by (cases "(''message'', a ''message'')" rule: z_string.cases)
     (auto simp add: refreshParser_def)

lemma z_string_Inr: "z_string key v = Inr s \<Longrightarrow> v = Some (JString s)"
  by (cases "(key, v)" rule: z_string.cases) auto

lemma z_string_optional_Inr: "z_string_optional key v = Inr s \<Longrightarrow> is_string_or_absent v"
  by (cases "(key, v)" rule: z_string_optional.cases) auto

lemma showParser_Inr:
  "showParser a = Inr args \<Longrightarrow>
     a ''message'' = Some (JString (sa_message args)) \<and>
     is_string_or_absent (a ''accentColor'') \<and> is_string_or_absent (a ''details'')"
  by (auto simp add: showParser_def Let_def split: sum.splits
        dest: z_string_Inr z_string_optional_Inr)

lemma refreshParser_Inr: "refreshParser a = Inr s \<Longrightarrow> a ''message'' = Some (JString s)"
  by (auto simp add: refreshParser_def split: sum.splits dest: z_string_Inr)

lemma cleanPath_snoc: "cleanPath (p @ ''/'') = p"
  by (simp add: cleanPath_def)

lemma cleanPath_id: "p = [] \<or> last p \<noteq> CHR ''/'' \<Longrightarrow> cleanPath p = p"
  by (auto simp add: cleanPath_def)

section \<open>The claims\<close>

subsection \<open>C1: a message for an unregistered session\<close>

text \<open>
  C1. A message-submit request whose session identifier (present and non-empty, the other
  case being C2) is not a key of the registry is answered 404 \<open>Unknown session\<close>; the state
  is returned as it was, so no call into a transport was made and no session was created.
  This holds for \<open>handlePostMessage\<close> of \<open>server.ts\<close>, and for the dispatcher on the
  message-submit path.
\<close>

theorem C1_unknown_session:
  assumes "searchParams_get (searchParams req) ''sessionId'' = Some sid"
      and "sid \<noteq> []"
      and "sessions st sid = None"
  shows "reply_status (fst (handlePostMessage k req res st)) = Some 404 \<and>
         reply_body (fst (handlePostMessage k req res st)) = Some ''Unknown session'' \<and>
         snd (handlePostMessage k req res st) = st \<and>
         (req_method req = ''POST'' \<and> cleanPath (pathname req) = postPath \<longrightarrow>
            httpServer k req h st =
              (Ended 404 [(''Access-Control-Allow-Origin'', ''*''),
                          (''Access-Control-Allow-Headers'', ''content-type'')] ''Unknown session'', st))"
  using assms
  by (simp add: handlePostMessage_def httpServer_def writeHead_end_def setHeader_def
        new_response_def postPath_def ssePath_def)

text \<open>Witness for C1: a message addressed to the never-opened identifier \<open>ghost\<close>.\<close>

theorem C1_unknown_session_witness:
  "httpServer (sdk_ok ''s1'') (request_of ''POST'' ''/mcp/messages'' [(''sessionId'', ''ghost'')]) 0 init =
     (Ended 404 [(''Access-Control-Allow-Origin'', ''*''),
                 (''Access-Control-Allow-Headers'', ''content-type'')] ''Unknown session'', init)"
proof -
  let ?req = "request_of ''POST'' ''/mcp/messages'' [(''sessionId'', ''ghost'')]"
  have a: "searchParams_get (searchParams ?req) ''sessionId'' = Some ''ghost''"
    by (simp add: request_of_def searchParams_get_def)
  have b: "''ghost'' \<noteq> []" by simp
  have c: "sessions init ''ghost'' = None" by (simp add: init_def)
  have d: "req_method ?req = ''POST'' \<and> cleanPath (pathname ?req) = postPath"
    by (simp add: request_of_def cleanPath_def postPath_def)
  show ?thesis
    using C1_unknown_session[OF a b c, of "sdk_ok ''s1''" "new_response 0" 0] d by blast
qed

subsection \<open>C2: a message without a session identifier\<close>

text \<open>
  C2 as stated fails on the golden-master draft: its guard
  \<open>!sessionId || !sessions.has(sessionId)\<close> answers a request without identifier and a
  request for the unregistered identifier \<open>ghost\<close> with the same 404 \<open>Session not found\<close>.
\<close>

theorem C2_missing_session_id_counterexample:
  "handlePostMessage_golden (sdk_ok ''s1'') (request_of ''POST'' ''/mcp/messages'' [])
     (new_response 0) init
   = (Ended 404 [] ''Session not found'', init) \<and>
   handlePostMessage_golden (sdk_ok ''s1'')
     (request_of ''POST'' ''/mcp/messages'' [(''sessionId'', ''ghost'')]) (new_response 0) init
   = (Ended 404 [] ''Session not found'', init)"
  by (simp add: handlePostMessage_golden_def searchParams_get_def writeHead_end_def new_response_def
        init_def Map_has_def request_of_def)

text \<open>
  C2, amended. In \<open>server.ts\<close> and in the legacy-mode draft a message-submit request whose
  \<open>sessionId\<close> parameter is missing or empty is answered 400, while a request whose
  identifier is present, non-empty and not registered is answered 404 \<open>Unknown session\<close>:
  the two errors are distinct. In both cases the state is returned as it was: no transport
  is called. The golden-master draft gives the two requests the same reply, 404
  \<open>Session not found\<close>, also without calling a transport.
\<close>

theorem C2_missing_session_id:
  assumes "non_empty (searchParams_get (searchParams req) ''sessionId'') = None"
      and "searchParams_get (searchParams req') ''sessionId'' = Some sid"
      and "sid \<noteq> []"
      and "sessions st sid = None"
  shows "reply_status (fst (handlePostMessage k req res st)) = Some 400 \<and>
         reply_body (fst (handlePostMessage k req res st)) = Some ''Missing sessionId query parameter'' \<and>
         snd (handlePostMessage k req res st) = st \<and>
         reply_status (fst (handlePostMessage_legacy k req res st)) = Some 400 \<and>
         reply_body (fst (handlePostMessage_legacy k req res st)) = Some ''Missing sessionId'' \<and>
         snd (handlePostMessage_legacy k req res st) = st \<and>
         reply_status (fst (handlePostMessage_golden k req res st)) = Some 404 \<and>
         reply_body (fst (handlePostMessage_golden k req res st)) = Some ''Session not found'' \<and>
         snd (handlePostMessage_golden k req res st) = st \<and>
         reply_status (fst (handlePostMessage k req' res st)) = Some 404 \<and>
         reply_body (fst (handlePostMessage k req' res st)) = Some ''Unknown session'' \<and>
         snd (handlePostMessage k req' res st) = st \<and>
         reply_status (fst (handlePostMessage_legacy k req' res st)) = Some 404 \<and>
         reply_body (fst (handlePostMessage_legacy k req' res st)) = Some ''Unknown session'' \<and>
         snd (handlePostMessage_legacy k req' res st) = st \<and>
         handlePostMessage_golden k req' res st = handlePostMessage_golden k req res st"
proof -
  have missing:
    "reply_status (fst (handlePostMessage k req res st)) = Some 400 \<and>
     reply_body (fst (handlePostMessage k req res st)) = Some ''Missing sessionId query parameter'' \<and>
     snd (handlePostMessage k req res st) = st \<and>
     reply_status (fst (handlePostMessage_legacy k req res st)) = Some 400 \<and>
     reply_body (fst (handlePostMessage_legacy k req res st)) = Some ''Missing sessionId'' \<and>
     snd (handlePostMessage_legacy k req res st) = st"
    using assms(1)
    by (simp add: handlePostMessage_def handlePostMessage_legacy_def writeHead_end_def)
  have golden_missing: "handlePostMessage_golden k req res st =
      (Ended 404 (res_headers res) ''Session not found'', st)"
    using assms(1) by (simp add: handlePostMessage_golden_def writeHead_end_def)
  have unknown:
    "reply_status (fst (handlePostMessage k req' res st)) = Some 404 \<and>
     reply_body (fst (handlePostMessage k req' res st)) = Some ''Unknown session'' \<and>
     snd (handlePostMessage k req' res st) = st \<and>
     reply_status (fst (handlePostMessage_legacy k req' res st)) = Some 404 \<and>
     reply_body (fst (handlePostMessage_legacy k req' res st)) = Some ''Unknown session'' \<and>
     snd (handlePostMessage_legacy k req' res st) = st"
    using assms(2,3,4)
    by (simp add: handlePostMessage_def handlePostMessage_legacy_def writeHead_end_def)
  have golden_unknown: "handlePostMessage_golden k req' res st =
      (Ended 404 (res_headers res) ''Session not found'', st)"
    using assms(2,3,4) by (simp add: handlePostMessage_golden_def writeHead_end_def Map_has_def)
  show ?thesis using missing unknown golden_missing golden_unknown by simp
qed

text \<open>
  Witness for C2: an empty \<open>sessionId\<close> parameter against the unregistered identifier
  \<open>ghost\<close>, in \<open>server.ts\<close> and in the legacy-mode draft.
\<close>

theorem C2_missing_session_id_witness:
  "handlePostMessage (sdk_ok ''s1'') (request_for []) (new_response 0) init
   = (Ended 400 [(''Access-Control-Allow-Origin'', ''*''),
                 (''Access-Control-Allow-Headers'', ''content-type'')]
        ''Missing sessionId query parameter'', init) \<and>
   handlePostMessage_legacy (sdk_ok ''s1'') (request_for []) (new_response 0) init
   = (Ended 400 [] ''Missing sessionId'', init) \<and>
   handlePostMessage_legacy (sdk_ok ''s1'') (request_for ''ghost'') (new_response 0) init
   = (Ended 404 [] ''Unknown session'', init)"
proof -
  have a: "non_empty (searchParams_get (searchParams (request_for [])) ''sessionId'') = None"
    by (simp add: request_for_def request_of_def searchParams_get_def)
  have b: "searchParams_get (searchParams (request_for ''ghost'')) ''sessionId'' = Some ''ghost''"
    by (simp add: request_for_def request_of_def searchParams_get_def)
  have c: "''ghost'' \<noteq> []" by simp
  have d: "sessions init ''ghost'' = None" by (simp add: init_def)
  note t = C2_missing_session_id[OF a b c d, of "sdk_ok ''s1''" "new_response 0"]
  have e: "\<exists>hs. fst (handlePostMessage (sdk_ok ''s1'') (request_for []) (new_response 0) init) =
             Ended 400 hs ''Missing sessionId query parameter''"
    using t by (cases "fst (handlePostMessage (sdk_ok ''s1'') (request_for []) (new_response 0) init)")
               simp_all
  have f: "\<exists>hs. fst (handlePostMessage_legacy (sdk_ok ''s1'') (request_for []) (new_response 0) init) =
             Ended 400 hs ''Missing sessionId''"
    using t by (cases "fst (handlePostMessage_legacy (sdk_ok ''s1'') (request_for []) (new_response 0) init)")
               simp_all
  have g: "\<exists>hs. fst (handlePostMessage_legacy (sdk_ok ''s1'') (request_for ''ghost'') (new_response 0) init) =
             Ended 404 hs ''Unknown session''"
    using t by (cases "fst (handlePostMessage_legacy (sdk_ok ''s1'') (request_for ''ghost'') (new_response 0) init)")
               simp_all
  show ?thesis using e f g
    by (simp add: handlePostMessage_def handlePostMessage_legacy_def request_for_def request_of_def
          searchParams_get_def writeHead_end_def setHeader_def new_response_def init_def)
qed

subsection \<open>C3: session identifiers of open streams\<close>




subsection \<open>C4: validation of the arguments\<close>

text \<open>
  C4 as stated fails on the golden-master draft, whose handler casts the arguments
  (\<open>request.params.arguments as { message: string }\<close>) and validates nothing: the
  arguments \<open>{}\<close> give a success result in which \<open>undefined\<close> is substituted.
\<close>

theorem C4_arguments_validated_counterexample:
  \<open>CallTool_golden (call_of ''kitchen-sink-show'' (Some Map.empty)) =
     Inr [Lit ''Widget displayed: "'', Subst None, Lit ''"'']\<close>
  by (simp add: CallTool_golden_def call_of_def)

text \<open>
  C4, amended. In \<open>server.ts\<close> each of the two registered operations parses the arguments
  with its zod parser before anything else. If the required field \<open>message\<close> is absent or
  not a string, the call raises a \<open>ZodError\<close> whose first issue names the path \<open>message\<close>,
  the expected type and the received one, and no result is built. Whenever a result is
  built, \<open>message\<close> is a string and, for \<open>kitchen-sink-show\<close>, \<open>accentColor\<close> and \<open>details\<close>
  are strings or absent. The golden-master draft validates nothing.
\<close>

theorem C4_arguments_validated:
  assumes "params_name request \<in> set tool_names"
  shows "(\<not> is_string (nullish (params_arguments request) Map.empty ''message'') \<longrightarrow>
            (\<exists>rest. CallTool e request =
               Inl (ZodError (\<lparr>expected = ZString,
                                received = getParsedType (nullish (params_arguments request) Map.empty ''message''),
                                path = [''message'']\<rparr> # rest)))) \<and>
         (\<forall>r. CallTool e request = Inr r \<longrightarrow>
            is_string (nullish (params_arguments request) Map.empty ''message'') \<and>
            (params_name request = ''kitchen-sink-show'' \<longrightarrow>
               is_string_or_absent (nullish (params_arguments request) Map.empty ''accentColor'') \<and>
               is_string_or_absent (nullish (params_arguments request) Map.empty ''details'')))"
proof -
  let ?a = "nullish (params_arguments request) Map.empty"
  consider (show_tool) "params_name request = ''kitchen-sink-show''"
    | (refresh_tool) "params_name request = ''kitchen-sink-refresh''"
    using assms by (auto simp add: tool_names_def)
  then show ?thesis
  proof cases
    case show_tool
    have bad: "\<exists>rest. CallTool e request =
        Inl (ZodError (\<lparr>expected = ZString, received = getParsedType (?a ''message''),
                         path = [''message'']\<rparr> # rest))"
      if "\<not> is_string (?a ''message'')"
      using showParser_message[of ?a] that show_tool by (auto simp add: CallTool_def)
    have good: "is_string (?a ''message'') \<and> is_string_or_absent (?a ''accentColor'') \<and>
                is_string_or_absent (?a ''details'')"
      if "CallTool e request = Inr r" for r
    proof (cases "showParser ?a")
      case (Inl err)
      then show ?thesis using that show_tool by (simp add: CallTool_def)
    next
      case (Inr args)
      then show ?thesis using showParser_Inr[OF Inr] by simp
    qed
    show ?thesis using bad good by blast
  next
    case refresh_tool
    have bad: "\<exists>rest. CallTool e request =
        Inl (ZodError (\<lparr>expected = ZString, received = getParsedType (?a ''message''),
                         path = [''message'']\<rparr> # rest))"
      if "\<not> is_string (?a ''message'')"
      using refreshParser_message[of ?a] that refresh_tool by (simp add: CallTool_def)
    have good: "is_string (?a ''message'')" if "CallTool e request = Inr r" for r
    proof (cases "refreshParser ?a")
      case (Inl err)
      then show ?thesis using that refresh_tool by (simp add: CallTool_def)
    next
      case (Inr msg)
      then show ?thesis using refreshParser_Inr[OF Inr] by simp
    qed
    show ?thesis using bad good refresh_tool by auto
  qed
qed

text \<open>
  Witness for C4: \<open>kitchen-sink-show\<close> called with the arguments \<open>{}\<close>; the failure is the
  one result written to the stream.
\<close>

theorem C4_arguments_validated_witness:
  "Dispatch (CallTool env0 (call_of ''kitchen-sink-show'' (Some Map.empty))) [] =
     [Failure (ZodError [\<lparr>expected = ZString, received = ZUndefined, path = [''message'']\<rparr>])]"
proof -
  let ?rq = "call_of ''kitchen-sink-show'' (Some Map.empty)"
  have a: "params_name ?rq \<in> set tool_names" by (simp add: call_of_def tool_names_def)
  have b: "\<not> is_string (nullish (params_arguments ?rq) Map.empty ''message'')"
    by (simp add: call_of_def)
  obtain rest where r: "CallTool env0 ?rq =
      Inl (ZodError (\<lparr>expected = ZString,
                       received = getParsedType (nullish (params_arguments ?rq) Map.empty ''message''),
                       path = [''message'']\<rparr> # rest))"
    using C4_arguments_validated[OF a, of env0] b by blast
  have "CallTool env0 ?rq =
      Inl (ZodError [\<lparr>expected = ZString, received = ZUndefined, path = [''message'']\<rparr>])"
    by (simp add: CallTool_def call_of_def showParser_def)
  then show ?thesis using r by (simp add: Dispatch_def)
qed

subsection \<open>C5: an unknown operation name\<close>

text \<open>
  C5. For a call whose name is not one of the registered tool names, whatever its
  arguments, the handler raises the error \<open>Unknown tool: <name>\<close>; the dispatch writes
  exactly one result to the owning stream, a failure carrying that error.
\<close>

theorem C5_unknown_operation:
  assumes "params_name request \<notin> set tool_names"
  shows "CallTool e request = Inl (Error (''Unknown tool: '' @ params_name request)) \<and>
         Dispatch (CallTool e request) stream =
           stream @ [Failure (Error (''Unknown tool: '' @ params_name request))]"
  using assms by (simp add: CallTool_def Dispatch_def tool_names_def)

text \<open>Witness for C5: the name \<open>echo\<close> is not registered.\<close>

theorem C5_unknown_operation_witness:
  "Dispatch (CallTool env0 (call_of ''echo'' (Some [''message'' \<mapsto> JString ''hi'']))) [] =
     [Failure (Error ''Unknown tool: echo'')]"
proof -
  let ?rq = "call_of ''echo'' (Some [''message'' \<mapsto> JString ''hi''])"
  have a: "params_name ?rq \<notin> set tool_names" by (simp add: call_of_def tool_names_def)
  show ?thesis
    using C5_unknown_operation[OF a, of env0 "[]", THEN conjunct2] by (simp add: call_of_def)
qed

subsection \<open>C6: a handshake that fails\<close>

text \<open>
  C6 as stated fails: the \<open>catch\<close> block writes the error response under the guard
  \<open>if (!res.headersSent)\<close>. When \<open>server.connect\<close> throws after the headers have been sent,
  the registry entry is deleted but no error response is written to the opening connection.
\<close>

theorem C6_failed_handshake_counterexample:
  "handleSseRequest (sdk_fails ''s1'' True) (new_response 0) init
   = (LeftToTransport [(''Access-Control-Allow-Origin'', ''*'')],
      \<lparr>sessions = Map.empty, onclose = [0 \<mapsto> (''s1'', 0)], effects = [ServerConnect 0]\<rparr>)"
  by (simp add: handleSseRequest_def Let_def Map_delete_def new_response_def init_def setHeader_def
        sdk_fails_def)

text \<open>
  C6, amended. If \<open>server.connect\<close> throws, then after \<open>handleSseRequest\<close> returns the
  registry has no entry for the attempted identifier and is otherwise as it was before the
  call; the response 500 \<open>Failed to establish SSE connection\<close> is written to the opening
  connection when no headers had been sent, and nothing is written when they had.
\<close>

theorem C6_failed_handshake:
  assumes "sdk_connect k = ConnectThrows headersSent"
  shows "sessions (snd (handleSseRequest k res st)) (sdk_sessionId k) = None \<and>
         sessions (snd (handleSseRequest k res st)) = (sessions st)(sdk_sessionId k := None) \<and>
         (\<not> headersSent \<longrightarrow>
            reply_status (fst (handleSseRequest k res st)) = Some 500 \<and>
            reply_body (fst (handleSseRequest k res st)) = Some ''Failed to establish SSE connection'') \<and>
         (headersSent \<longrightarrow> reply_status (fst (handleSseRequest k res st)) = None)"
  using assms
  by (simp add: handleSseRequest_def Let_def Map_delete_def writeHead_end_def)

text \<open>
  Witness for C6: with the session \<open>s1\<close> open, the handshake of \<open>s2\<close> fails before any
  header is sent; the registry is again as it was.
\<close>

theorem C6_failed_handshake_witness:
  "reply_status (fst (handleSseRequest (sdk_fails ''s2'' False) (new_response 1)
                        (step (Open (sdk_ok ''s1'') 0) init))) = Some 500 \<and>
   sessions (snd (handleSseRequest (sdk_fails ''s2'' False) (new_response 1)
                        (step (Open (sdk_ok ''s1'') 0) init)))
     = [''s1'' \<mapsto> \<lparr>server = 0, transport = 0\<rparr>]"
proof -
  have a: "sdk_connect (sdk_fails ''s2'' False) = ConnectThrows False"
    by (simp add: sdk_fails_def)
  have b: "sessions (step (Open (sdk_ok ''s1'') 0) init) = [''s1'' \<mapsto> \<lparr>server = 0, transport = 0\<rparr>]"
    by (simp add: sessions_handleSse sdk_ok_def new_response_def init_def)
  have c: "sdk_sessionId (sdk_fails ''s2'' False) = ''s2''"
    by (simp add: sdk_fails_def)
  have d: "[''s1'' \<mapsto> \<lparr>server = 0, transport = 0\<rparr>](''s2'' := None)
             = [''s1'' \<mapsto> \<lparr>server = (0::nat), transport = (0::nat)\<rparr>]"
    by (rule ext) simp
  show ?thesis
    using C6_failed_handshake[OF a, of "new_response 1" "step (Open (sdk_ok ''s1'') 0) init"]
    unfolding b c d by simp
qed

subsection \<open>C7: teardown\<close>




subsection \<open>C8: the message-submit method on the stream-open path\<close>

text \<open>
  C8 as stated fails on \<open>server.ts\<close>: a \<open>POST\<close> to \<open>/mcp\<close> without a session identifier is
  answered 200 \<open>OK\<close> (branch 4 of the dispatcher, which allows the probe).
\<close>

theorem C8_wrong_method_probe_counterexample:
  "httpServer (sdk_ok ''s1'') (request_of ''POST'' ''/mcp'' []) 0 init = (Ended 200 [] ''OK'', init)"
  by (simp add: httpServer_def cleanPath_def ssePath_def postPath_def searchParams_has_def
        writeHead_end_def new_response_def request_of_def)

text \<open>
  C8, amended. For every \<open>POST\<close> request on the stream-open path: the legacy-mode draft
  rejects it with 405 \<open>Use GET for SSE\<close>, with or without a session identifier, and leaves
  the state as it was; \<open>server.ts\<close> answers 200 \<open>OK\<close> when the request has no \<open>sessionId\<close>
  parameter and hands the request to \<open>handlePostMessage\<close> when it has one.
\<close>

theorem C8_wrong_method_probe:
  assumes "req_method req = ''POST''" and "cleanPath (pathname req) = ssePath"
  shows "httpServer_legacy k req h st = (Ended 405 cors_options ''Use GET for SSE'', st) \<and>
         (\<not> searchParams_has (searchParams req) ''sessionId'' \<longrightarrow>
            httpServer k req h st = (Ended 200 [] ''OK'', st)) \<and>
         (searchParams_has (searchParams req) ''sessionId'' \<longrightarrow>
            httpServer k req h st = handlePostMessage k req (new_response h) st)"
  using assms
  by (simp add: httpServer_legacy_def httpServer_def ssePath_def postPath_def writeHead_end_def
        cors_options_def setHeader_def new_response_def)

text \<open>Witness for C8: the probe \<open>POST /mcp/\<close> on the legacy-mode draft.\<close>

theorem C8_wrong_method_probe_witness:
  "httpServer_legacy (sdk_ok ''s1'') (request_of ''POST'' ''/mcp/'' []) 0 init =
     (Ended 405 [(''Access-Control-Allow-Origin'', ''*''),
                 (''Access-Control-Allow-Methods'', ''GET, POST, OPTIONS''),
                 (''Access-Control-Allow-Headers'', ''content-type'')] ''Use GET for SSE'', init)"
proof -
  let ?req = "request_of ''POST'' ''/mcp/'' []"
  have a: "req_method ?req = ''POST''" by (simp add: request_of_def)
  have b: "cleanPath (pathname ?req) = ssePath" by (simp add: request_of_def cleanPath_def ssePath_def)
  show ?thesis
    using C8_wrong_method_probe[OF a b, of "sdk_ok ''s1''" 0 init] by (simp add: cors_options_def)
qed

subsection \<open>C9: the root path\<close>

text \<open>
  C9 as stated fails twice. The dispatcher of \<open>server.ts\<close> has no branch for the root path:
  \<open>GET /\<close> is answered 404 \<open>Not Found\<close>. In the legacy-mode draft, which has the branch, the
  pre-flight branch comes first: \<open>OPTIONS /\<close> is answered 204 with an empty body.
\<close>

theorem C9_root_path_counterexample:
  "httpServer (sdk_ok ''s1'') (request_of ''GET'' ''/'' []) 0 init = (Ended 404 [] ''Not Found'', init) \<and>
   httpServer_legacy (sdk_ok ''s1'') (request_of ''OPTIONS'' ''/'' []) 0 init
     = (Ended 204 cors_options [], init)"
  by (simp add: httpServer_def httpServer_legacy_def cleanPath_def ssePath_def postPath_def
        writeHead_end_def new_response_def request_of_def cors_options_def setHeader_def)

text \<open>
  C9, amended. In the legacy-mode draft every request to the root path whose method is not
  \<open>OPTIONS\<close> is answered 200 with the fixed text \<open>Kitchen Sink MCP Server is online.\<close>,
  whatever the registry holds, and the state is returned as it was. In \<open>server.ts\<close> the
  same requests are answered 404 \<open>Not Found\<close>.
\<close>

theorem C9_root_path:
  assumes "req_method req \<noteq> ''OPTIONS''"
      and "cleanPath (pathname req) = [] \<or> cleanPath (pathname req) = ''/''"
  shows "httpServer_legacy k req h st =
           (Ended 200 cors_options ''Kitchen Sink MCP Server is online.'', st) \<and>
         httpServer k req h st = (Ended 404 [] ''Not Found'', st)"
  using assms
  by (auto simp add: httpServer_legacy_def httpServer_def ssePath_def postPath_def writeHead_end_def
        cors_options_def setHeader_def new_response_def)

text \<open>Witness for C9: \<open>GET /\<close> on the legacy-mode draft while two sessions are open.\<close>

theorem C9_root_path_witness:
  "httpServer_legacy (sdk_ok ''s3'') (request_of ''GET'' ''/'' []) 2
     (run [Open (sdk_ok ''s1'') 0, Open (sdk_ok ''s2'') 1] init) =
     (Ended 200 [(''Access-Control-Allow-Origin'', ''*''),
                 (''Access-Control-Allow-Methods'', ''GET, POST, OPTIONS''),
                 (''Access-Control-Allow-Headers'', ''content-type'')]
        ''Kitchen Sink MCP Server is online.'',
      run [Open (sdk_ok ''s1'') 0, Open (sdk_ok ''s2'') 1] init)"
proof -
  let ?req = "request_of ''GET'' ''/'' []"
  have a: "req_method ?req \<noteq> ''OPTIONS''" by (simp add: request_of_def)
  have b: "cleanPath (pathname ?req) = [] \<or> cleanPath (pathname ?req) = ''/''"
    by (simp add: request_of_def cleanPath_def)
  show ?thesis
    using C9_root_path[OF a b, of "sdk_ok ''s3''" 2 "run [Open (sdk_ok ''s1'') 0, Open (sdk_ok ''s2'') 1] init"]
    unfolding cors_options_def by blast
qed

subsection \<open>C10: one trailing slash\<close>

text \<open>
  C10. \<open>cleanPath\<close> removes exactly the slash added at the end of a path and never more
  than one character; a request whose path is \<open>p\<close> followed by one slash, \<open>p\<close> not itself
  ending in a slash, gets the same reply and the same state as the request with path \<open>p\<close>,
  in \<open>server.ts\<close> and in the legacy-mode draft.
\<close>

theorem C10_trailing_slash:
  assumes "p = [] \<or> last p \<noteq> CHR ''/''"
  shows "cleanPath (p @ ''/'') = p \<and>
         (cleanPath q = q \<or> cleanPath q @ ''/'' = q) \<and>
         httpServer k (req\<lparr>pathname := p @ ''/''\<rparr>) h st = httpServer k (req\<lparr>pathname := p\<rparr>) h st \<and>
         httpServer_legacy k (req\<lparr>pathname := p @ ''/''\<rparr>) h st =
           httpServer_legacy k (req\<lparr>pathname := p\<rparr>) h st"
proof -
  have a: "cleanPath (p @ ''/'') = p" by (rule cleanPath_snoc)
  have b: "cleanPath q = q \<or> cleanPath q @ ''/'' = q"
  proof (cases "q \<noteq> [] \<and> last q = CHR ''/''")
    case True
    then have "butlast q @ [CHR ''/''] = q" using append_butlast_last_id[of q] by simp
    then show ?thesis using True by (simp add: cleanPath_def)
  next
    case False
    then show ?thesis by (auto simp add: cleanPath_def)
  qed
  have c: "cleanPath p = p" using assms by (rule cleanPath_id)
  have d: "httpServer k (req\<lparr>pathname := p @ ''/''\<rparr>) h st = httpServer k (req\<lparr>pathname := p\<rparr>) h st"
    by (simp add: httpServer_def handlePostMessage_def a c Let_def)
  have e: "httpServer_legacy k (req\<lparr>pathname := p @ ''/''\<rparr>) h st =
           httpServer_legacy k (req\<lparr>pathname := p\<rparr>) h st"
    by (simp add: httpServer_legacy_def handlePostMessage_legacy_def a c Let_def)
  show ?thesis using a b d e by blast
qed

text \<open>
  Witness for C10: \<open>GET /mcp/\<close> opens a stream as \<open>GET /mcp\<close> does; of two slashes only one
  is removed.
\<close>

theorem C10_trailing_slash_witness:
  "httpServer (sdk_ok ''s1'') (request_of ''GET'' ''/mcp/'' []) 0 init =
     httpServer (sdk_ok ''s1'') (request_of ''GET'' ''/mcp'' []) 0 init \<and>
   sessions (snd (httpServer (sdk_ok ''s1'') (request_of ''GET'' ''/mcp/'' []) 0 init)) ''s1''
     = Some \<lparr>server = 0, transport = 0\<rparr> \<and>
   cleanPath ''/mcp//'' = ''/mcp/''"
proof -
  have a: "''/mcp'' = [] \<or> last ''/mcp'' \<noteq> CHR ''/''" by simp
  have b: "(request_of ''GET'' ''/mcp'' [])\<lparr>pathname := ''/mcp'' @ ''/''\<rparr> = request_of ''GET'' ''/mcp/'' []"
    "(request_of ''GET'' ''/mcp'' [])\<lparr>pathname := ''/mcp''\<rparr> = request_of ''GET'' ''/mcp'' []"
    by (simp_all add: request_of_def)
  have c: "httpServer (sdk_ok ''s1'') (request_of ''GET'' ''/mcp/'' []) 0 init =
           httpServer (sdk_ok ''s1'') (request_of ''GET'' ''/mcp'' []) 0 init"
    using C10_trailing_slash[OF a, of "''x''" "sdk_ok ''s1''" "request_of ''GET'' ''/mcp'' []" 0 init]
    unfolding b by blast
  have d: "sessions (snd (httpServer (sdk_ok ''s1'') (request_of ''GET'' ''/mcp'' []) 0 init)) ''s1''
             = Some \<lparr>server = 0, transport = 0\<rparr>"
    by (simp add: httpServer_def request_of_def cleanPath_def ssePath_def sessions_handleSse
          sdk_ok_def new_response_def)
  have e: "cleanPath ''/mcp//'' = ''/mcp/''" by (simp add: cleanPath_def)
  show ?thesis using c d e by simp
qed

end
